theory Spec2Isabelle
  imports Complex_Main "HOL-Library.AList"
begin

section \<open>JavaScript values used by the calculator\<close>

text \<open>
  The pricing functions of \<^verbatim>\<open>assets/js/calculator.js\<close> receive and return numbers,
  \<^verbatim>\<open>null\<close> and \<^verbatim>\<open>undefined\<close>. Every number that occurs is an integer (table prices, their
  differences and fourfold multiples, slider areas) or \<^verbatim>\<open>NaN\<close> (what \<^verbatim>\<open>parseInt\<close> returns
  when it finds no digit), so a number is \<open>Num n\<close> with an \<^typ>\<open>int\<close>, or \<open>NaN\<close>. The
  integers are exact: all magnitudes the page produces are far below \<open>2^53\<close>.
  Property names, selectors and event names are ASCII and are of type \<^typ>\<open>string\<close>;
  displayed text contains Cyrillic and is a list of UTF-16 code units, which is what a
  JavaScript string is.
\<close>

datatype jsval = Num int | NaN | Null | Undefined

datatype error = TypeError

type_synonym utf16 = "nat list"

text \<open>\<^verbatim>\<open>!v\<close>: of the values above, zero, \<^verbatim>\<open>NaN\<close>, null and undefined are falsy.\<close>

fun falsy :: "jsval \<Rightarrow> bool" where
  "falsy (Num n) = (n = 0)"
| "falsy NaN = True"
| "falsy Null = True"
| "falsy Undefined = True"

text \<open>
  Conversion to a number, as the comparison and arithmetic operators apply it: null is
  \<open>0\<close>, undefined is \<^verbatim>\<open>NaN\<close> (\<open>None\<close> here).
\<close>

fun to_number :: "jsval \<Rightarrow> int option" where
  "to_number (Num n) = Some n"
| "to_number NaN = None"
| "to_number Null = Some 0"
| "to_number Undefined = None"

text \<open>\<^verbatim>\<open>a <= b\<close>, \<^verbatim>\<open>a >= b\<close> and \<^verbatim>\<open>a > b\<close>: false as soon as one side is \<^verbatim>\<open>NaN\<close>.\<close>

definition js_le :: "jsval \<Rightarrow> jsval \<Rightarrow> bool" where
  "js_le a b = (case (to_number a, to_number b) of (Some x, Some y) \<Rightarrow> x \<le> y | _ \<Rightarrow> False)"

definition js_ge :: "jsval \<Rightarrow> jsval \<Rightarrow> bool" where
  "js_ge a b = (case (to_number a, to_number b) of (Some x, Some y) \<Rightarrow> y \<le> x | _ \<Rightarrow> False)"

definition js_gt :: "jsval \<Rightarrow> jsval \<Rightarrow> bool" where
  "js_gt a b = (case (to_number a, to_number b) of (Some x, Some y) \<Rightarrow> y < x | _ \<Rightarrow> False)"

text \<open>\<^verbatim>\<open>a * b\<close> and \<^verbatim>\<open>a - b\<close>.\<close>

definition js_times :: "jsval \<Rightarrow> jsval \<Rightarrow> jsval" where
  "js_times a b = (case (to_number a, to_number b) of (Some x, Some y) \<Rightarrow> Num (x * y) | _ \<Rightarrow> NaN)"

definition js_minus :: "jsval \<Rightarrow> jsval \<Rightarrow> jsval" where
  "js_minus a b = (case (to_number a, to_number b) of (Some x, Some y) \<Rightarrow> Num (x - y) | _ \<Rightarrow> NaN)"

text \<open>An ASCII literal as code units.\<close>

definition ascii :: "string \<Rightarrow> utf16" where
  "ascii s = map of_char s"

subsection \<open>\<^verbatim>\<open>parseInt\<close> and the order of \<^verbatim>\<open>Object.entries\<close>\<close>

definition is_space :: "char \<Rightarrow> bool" where
  "is_space c = (of_char c \<in> {9, 10, 11, 12, 13, 32 :: nat})"

definition digit_of :: "char \<Rightarrow> nat option" where
  "digit_of c =
     (let n = (of_char c :: nat)
      in if 48 \<le> n \<and> n \<le> 57 then Some (n - 48)
         else if 97 \<le> n \<and> n \<le> 122 then Some (n - 87)
         else if 65 \<le> n \<and> n \<le> 90 then Some (n - 55)
         else None)"

text \<open>The longest prefix of digits below the radix.\<close>

fun digits :: "nat \<Rightarrow> string \<Rightarrow> nat list" where
  "digits r [] = []"
| "digits r (c # cs) =
     (case digit_of c of
        None \<Rightarrow> []
      | Some d \<Rightarrow> if d < r then d # digits r cs else [])"

definition strip_sign :: "string \<Rightarrow> bool \<times> string" where
  "strip_sign t =
     (case t of
        [] \<Rightarrow> (False, t)
      | c # cs \<Rightarrow> if c = CHR ''-'' then (True, cs)
                  else if c = CHR ''+'' then (False, cs)
                  else (False, t))"

definition strip_radix :: "string \<Rightarrow> nat \<times> string" where
  "strip_radix u =
     (if take 2 u = ''0x'' \<or> take 2 u = ''0X'' then (16, drop 2 u) else (10, u))"

text \<open>
  \<^verbatim>\<open>parseInt(s)\<close> with no radix argument: leading white space is skipped, a sign and a
  hexadecimal prefix are read, then the longest run of digits. The strings are ASCII, so
  the white space is that of ASCII; the value is the exact integer, which is what the
  platform returns below \<open>2^53\<close>.
\<close>

definition parseInt :: "string \<Rightarrow> jsval" where
  "parseInt s =
     (let (neg, u) = strip_sign (dropWhile is_space s);
          (r, v) = strip_radix u;
          ds = digits r v
      in if ds = [] then NaN
         else Num ((if neg then - 1 else 1) * int (foldl (\<lambda>a d. a * r + d) 0 ds)))"

text \<open>
  A property name is an array index when it is the canonical decimal form of an integer
  below \<open>2^32 - 1\<close>. \<^verbatim>\<open>Object.entries\<close> lists array-index keys first, in ascending numeric
  order, then the other string keys in the order of the literal.
\<close>

definition array_index :: "string \<Rightarrow> nat option" where
  "array_index k =
     (let ds = digits 10 k; n = foldl (\<lambda>a d. a * 10 + d) 0 ds
      in if k \<noteq> [] \<and> length ds = length k \<and> (k = ''0'' \<or> hd k \<noteq> CHR ''0'') \<and> n < 4294967295
         then Some n else None)"

definition Object_entries :: "(string \<times> 'a) list \<Rightarrow> (string \<times> 'a) list" where
  "Object_entries obj =
     sort_key (\<lambda>p. the (array_index (fst p))) (filter (\<lambda>p. array_index (fst p) \<noteq> None) obj)
     @ filter (\<lambda>p. array_index (fst p) = None) obj"

section \<open>The calculator's tables\<close>

text \<open>
  \<^verbatim>\<open>Calculator.prices\<close>: an object literal per zone. A lookup finds the own properties of the
  literal, and a name that is none of them reads as \<^verbatim>\<open>undefined\<close> here. The names that every
  object inherits (\<^verbatim>\<open>toString\<close>, \<^verbatim>\<open>constructor\<close> and the like) are left out: the zone names
  come from \<^verbatim>\<open>getZone\<close>, and the frequencies of the page are \<^verbatim>\<open>single\<close> and \<^verbatim>\<open>weekly\<close>.
\<close>

definition prices :: "(string \<times> (string \<times> int) list) list" where
  "prices =
     [(''zone1'', [(''single'', 9900), (''weekly'', 8400)]),
      (''zone2'', [(''single'', 14900), (''weekly'', 12700)]),
      (''zone3'', [(''single'', 21900), (''weekly'', 18600)])]"

definition hint_50 :: utf16 where
  "hint_50 = [49, 45, 50, 32, 1082, 1086, 1084, 1085, 1072, 1090, 1085, 1072, 1103, 32, 8226,
     32, 1055, 1088, 1080, 1077, 1076, 1077, 1090, 32, 49, 32, 1082, 1083, 1080, 1085, 1077, 1088]"

definition hint_75 :: utf16 where
  "hint_75 = [50, 45, 1082, 1086, 1084, 1085, 1072, 1090, 1085, 1072, 1103, 32, 8226, 32, 1055,
     1088, 1080, 1077, 1076, 1077, 1090, 32, 49, 32, 1082, 1083, 1080, 1085, 1077, 1088]"

definition hint_90 :: utf16 where
  "hint_90 = [50, 45, 51, 32, 1082, 1086, 1084, 1085, 1072, 1090, 1085, 1072, 1103, 32, 8226,
     32, 1055, 1088, 1080, 1077, 1076, 1077, 1090, 32, 49, 32, 1082, 1083, 1080, 1085, 1077, 1088]"

definition hint_100 :: utf16 where
  "hint_100 = [51, 45, 1082, 1086, 1084, 1085, 1072, 1090, 1085, 1072, 1103, 32, 8226, 32, 1055,
     1088, 1080, 1077, 1076, 1091, 1090, 32, 50, 32, 1082, 1083, 1080, 1085, 1077, 1088, 1072]"

definition hint_130 :: utf16 where
  "hint_130 = [51, 45, 52, 32, 1082, 1086, 1084, 1085, 1072, 1090, 1085, 1072, 1103, 32, 8226,
     32, 1055, 1088, 1080, 1077, 1076, 1091, 1090, 32, 50, 32, 1082, 1083, 1080, 1085, 1077, 1088,
     1072]"

definition hint_150 :: utf16 where
  "hint_150 = [52, 45, 1082, 1086, 1084, 1085, 1072, 1090, 1085, 1072, 1103, 32, 8226, 32, 1055,
     1088, 1080, 1077, 1076, 1091, 1090, 32, 50, 32, 1082, 1083, 1080, 1085, 1077, 1088, 1072]"

definition hint_170 :: utf16 where
  "hint_170 = [1041, 1086, 1083, 1100, 1096, 1072, 1103, 32, 1082, 1074, 1072, 1088, 1090, 1080,
     1088, 1072, 32, 8226, 32, 1055, 1088, 1080, 1077, 1076, 1091, 1090, 32, 51, 32, 1082, 1083,
     1080, 1085, 1077, 1088, 1072]"

definition hint_200 :: utf16 where
  "hint_200 = [1055, 1077, 1085, 1090, 1093, 1072, 1091, 1089, 32, 8226, 32, 1055, 1088, 1080,
     1077, 1076, 1091, 1090, 32, 51, 32, 1082, 1083, 1080, 1085, 1077, 1088, 1072]"

text \<open>\<^verbatim>\<open>Calculator.areaHints\<close>, in the order of the literal.\<close>

definition areaHints :: "(string \<times> utf16) list" where
  "areaHints =
     [(''50'', hint_50), (''75'', hint_75), (''90'', hint_90), (''100'', hint_100),
      (''130'', hint_130), (''150'', hint_150), (''170'', hint_170), (''200'', hint_200)]"

text \<open>\<^verbatim>\<open>Calculator.frequencyLabels\<close>.\<close>

definition frequencyLabels :: "(string \<times> utf16) list" where
  "frequencyLabels =
     [(''single'', [1088, 1072, 1079, 1086, 1074, 1072, 1103]),
      (''weekly'', [1088, 1077, 1075, 1091, 1083, 1103, 1088, 1085, 1086, 32, 1088, 1072, 1079,
                    32, 1074, 32, 1085, 1077, 1076, 1077, 1083, 1102])]"

section \<open>The pricing functions\<close>

definition getZone :: "jsval \<Rightarrow> string" where
  "getZone area =
     (if js_le area (Num 90) then ''zone1''
      else if js_le area (Num 150) then ''zone2''
      else ''zone3'')"

text \<open>
  \<^verbatim>\<open>this.prices[zone][frequency]\<close>: reading a property of \<^verbatim>\<open>undefined\<close> throws, reading a
  missing property of an object gives \<^verbatim>\<open>undefined\<close>.
\<close>

definition getPrice :: "jsval \<Rightarrow> string \<Rightarrow> error + jsval" where
  "getPrice area frequency =
     (let zone = getZone area
      in case map_of prices zone of
           None \<Rightarrow> Inl TypeError
         | Some entry \<Rightarrow>
             Inr (case map_of entry frequency of None \<Rightarrow> Undefined | Some p \<Rightarrow> Num p))"

definition getMonthlyPrice :: "jsval \<Rightarrow> string \<Rightarrow> jsval" where
  "getMonthlyPrice price frequency =
     (if falsy price then Null
      else if frequency = ''weekly'' then js_times price (Num 4)
      else price)"

definition getSavings :: "jsval \<Rightarrow> string \<Rightarrow> error + jsval" where
  "getSavings area frequency =
     (if frequency = ''single'' then Inr (Num 0)
      else case getPrice area ''single'' of
             Inl e \<Rightarrow> Inl e
           | Inr singlePrice \<Rightarrow>
               (case getPrice area frequency of
                  Inl e \<Rightarrow> Inl e
                | Inr currentPrice \<Rightarrow>
                    if falsy singlePrice \<or> falsy currentPrice then Inr (Num 0)
                    else Inr (js_minus singlePrice currentPrice)))"

text \<open>
  The loop of \<^verbatim>\<open>getAreaHint\<close>, from \<^verbatim>\<open>i = hints.length - 1\<close> down to \<open>0\<close>; the counter
  here is \<open>i + 1\<close>. \<open>None\<close> is the loop running out.
\<close>

fun hint_scan :: "(string \<times> utf16) list \<Rightarrow> nat \<Rightarrow> jsval \<Rightarrow> utf16 option" where
  "hint_scan hints 0 area = None"
| "hint_scan hints (Suc i) area =
     (if js_ge area (parseInt (fst (hints ! i))) then Some (snd (hints ! i))
      else hint_scan hints i area)"

text \<open>After the loop \<^verbatim>\<open>hints[0][1]\<close> is read, which throws on an empty table.\<close>

definition getAreaHint :: "jsval \<Rightarrow> error + utf16" where
  "getAreaHint area =
     (let hints = Object_entries areaHints
      in case hint_scan hints (length hints) area of
           Some label \<Rightarrow> Inr label
         | None \<Rightarrow> (case hints of [] \<Rightarrow> Inl TypeError | h # _ \<Rightarrow> Inr (snd h)))"

definition on_request :: utf16 where
  "on_request = [1055, 1086, 32, 1079, 1072, 1087, 1088, 1086, 1089, 1091]"

definition rouble :: utf16 where
  "rouble = [8381]"

text \<open>
  \<^verbatim>\<open>formatPrice\<close>. The number formatter of the platform,
  \<^verbatim>\<open>new Intl.NumberFormat('ru-RU').format\<close>, is the parameter \<open>nf\<close>.
\<close>

definition formatPrice :: "(jsval \<Rightarrow> utf16) \<Rightarrow> jsval \<Rightarrow> utf16" where
  "formatPrice nf price =
     (if falsy price then on_request
      else nf price @ rouble)"

text \<open>
  Modelled from the spec: \<^verbatim>\<open>new Intl.NumberFormat('ru-RU').format\<close>, the formatter of the
  platform, which \<^verbatim>\<open>formatPrice\<close> calls and the repository does not contain. The spec has a
  "group-separated integer" with the "thousands separator per the target locale's numeric
  formatting convention": for ru-RU the decimal digits stand in groups of three counted from
  the right, with a no-break space (U+00A0, code unit 160) between the groups.
  \<open>group3\<close> works on the digits in reverse order.
\<close>

fun group3 :: "utf16 \<Rightarrow> utf16" where
  "group3 (a # b # c # d # ds) = a # b # c # 160 # group3 (d # ds)"
| "group3 ds = ds"

text \<open>The decimal digits of an integer, as a template literal or \<^verbatim>\<open>textContent\<close> renders it.\<close>

fun dec_digits :: "nat \<Rightarrow> utf16" where
  "dec_digits n = (if n < 10 then [48 + n] else dec_digits (n div 10) @ [48 + n mod 10])"

declare dec_digits.simps [simp del]

definition decimal :: "int \<Rightarrow> utf16" where
  "decimal n = (if n < 0 then 45 # dec_digits (nat (- n)) else dec_digits (nat n))"

definition grouped :: "nat \<Rightarrow> utf16" where
  "grouped n = rev (group3 (rev (dec_digits n)))"

definition ru_RU_integer :: "int \<Rightarrow> utf16" where
  "ru_RU_integer n = (if n < 0 then 45 # grouped (nat (- n)) else grouped (nat n))"

text \<open>
  Modelled from the spec: the formatter on the values of \<open>jsval\<close>. It converts its argument
  to a number; \<open>ru_RU_nan\<close> is the locale's text for \<^verbatim>\<open>NaN\<close>. \<^verbatim>\<open>formatPrice\<close> passes on
  non-zero numbers only.
\<close>

definition ru_RU_nan :: utf16 where
  "ru_RU_nan = [1085, 1077, 160, 1095, 1080, 1089, 1083, 1086]"

definition ru_RU_format :: "jsval \<Rightarrow> utf16" where
  "ru_RU_format v = (case to_number v of Some n \<Rightarrow> ru_RU_integer n | None \<Rightarrow> ru_RU_nan)"

text \<open>
  The table as the loop of \<^verbatim>\<open>getAreaHint\<close> reads it: each key through \<^verbatim>\<open>parseInt\<close>, with
  its label. The prices that occur in \<^verbatim>\<open>Calculator.prices\<close>.
\<close>

definition hint_table :: "(int \<times> utf16) list" where
  "hint_table =
     concat (map (\<lambda>(k, label). case parseInt k of Num n \<Rightarrow> [(n, label)] | _ \<Rightarrow> []) areaHints)"

definition table_prices :: "int list" where
  "table_prices = concat (map (\<lambda>(zone, entry). map snd entry) prices)"

section \<open>The page\<close>

text \<open>
  The scripts reach the page through the document's query functions and change it through
  class lists, text, styles and listeners. The queries are what the browser answers for the
  markup at hand: they are the fields of \<open>document\<close>, and a missing element is \<open>None\<close>
  (\<^verbatim>\<open>null\<close>). What the scripts read and write is the record \<open>page\<close>, passed through every
  function and returned updated. A property read or a method call on \<^verbatim>\<open>null\<close> throws a
  \<^verbatim>\<open>TypeError\<close>.
\<close>

type_synonym node = nat

datatype target = Window | Document | Element node

text \<open>The closures the scripts register, by what they call.\<close>

datatype callback =
    Cb_Header_onScroll
  | Cb_Modal_open
  | Cb_Modal_close
  | Cb_Modal_backdrop
  | Cb_Modal_keydown
  | Cb_Modal_handleSubmit
  | Cb_Modal_closeThenReload
  | Cb_location_reload
  | Cb_MobileMenu_toggle
  | Cb_MobileMenu_linkClick
  | Cb_Calculator_update
  | Cb_Calculator_updateOptionPrices

record document =
  getElementById :: "string \<Rightarrow> node option"
  querySelector :: "string \<Rightarrow> node option"
  querySelectorAll :: "string \<Rightarrow> node list"
  elementQuerySelectorAll :: "node \<Rightarrow> string \<Rightarrow> node list"
  parentElement :: "node \<Rightarrow> node option"

text \<open>The fields \<^verbatim>\<open>Calculator.init\<close> stores on the \<^verbatim>\<open>Calculator\<close> object.\<close>

record calculator =
  slider :: "node option"
  areaValue :: "node option"
  areaHint :: "node option"
  options :: "node list"
  resultSummary :: "node option"
  resultPrice :: "node option"
  resultMonthly :: "node option"
  savingElements :: "node list"

text \<open>
  \<open>scrollY\<close>, \<open>inputValue\<close> (the \<^verbatim>\<open>value\<close> of a control) and \<open>formEntries\<close> (the entries
  of \<^verbatim>\<open>new FormData(form)\<close>) are read; the other fields are written. \<open>textContent\<close>,
  \<open>innerHTML\<close> and \<open>styleBackground\<close> hold what a script has set, \<open>None\<close> where the
  markup's own content stands. \<open>Header_header\<close>, \<open>Modal_modal\<close>, \<open>Modal_form\<close> and
  \<open>calc\<close> are the fields of the module objects.
\<close>

record page =
  scrollY :: real
  inputValue :: "node \<Rightarrow> string"
  formEntries :: "node \<Rightarrow> (string \<times> utf16) list"
  listeners :: "(target \<times> string \<times> callback) list"
  classList :: "node \<Rightarrow> string list"
  textContent :: "node \<Rightarrow> utf16 option"
  innerHTML :: "node \<Rightarrow> utf16 option"
  styleBackground :: "node \<Rightarrow> utf16 option"
  bodyOverflow :: string
  alerts :: "utf16 list"
  console :: "(string \<times> (string \<times> utf16) list) list"
  timers :: "(nat \<times> callback) list"
  defaultPrevented :: bool
  Header_header :: "node option"
  Modal_modal :: "node option"
  Modal_form :: "node option"
  calc :: calculator

definition with_ref :: "'a option \<Rightarrow> ('a \<Rightarrow> error + 'b) \<Rightarrow> error + 'b" where
  "with_ref r f = (case r of None \<Rightarrow> Inl TypeError | Some v \<Rightarrow> f v)"

text \<open>A call that may throw, and what follows it.\<close>

definition and_then :: "error + 'a \<Rightarrow> ('a \<Rightarrow> error + 'b) \<Rightarrow> error + 'b" where
  "and_then r f = (case r of Inl e \<Rightarrow> Inl e | Inr v \<Rightarrow> f v)"

definition addEventListener :: "target \<Rightarrow> string \<Rightarrow> callback \<Rightarrow> page \<Rightarrow> page" where
  "addEventListener t ev cb s = s\<lparr>listeners := listeners s @ [(t, ev, cb)]\<rparr>"

definition classList_contains :: "node \<Rightarrow> string \<Rightarrow> page \<Rightarrow> bool" where
  "classList_contains n c s = (c \<in> set (classList s n))"

definition classList_add :: "node \<Rightarrow> string \<Rightarrow> page \<Rightarrow> page" where
  "classList_add n c s =
     (if classList_contains n c s then s
      else s\<lparr>classList := (classList s)(n := classList s n @ [c])\<rparr>)"

definition classList_remove :: "node \<Rightarrow> string \<Rightarrow> page \<Rightarrow> page" where
  "classList_remove n c s = s\<lparr>classList := (classList s)(n := removeAll c (classList s n))\<rparr>"

definition classList_toggle :: "node \<Rightarrow> string \<Rightarrow> page \<Rightarrow> page" where
  "classList_toggle n c s =
     (if classList_contains n c s then classList_remove n c s else classList_add n c s)"

definition set_textContent :: "node \<Rightarrow> utf16 \<Rightarrow> page \<Rightarrow> page" where
  "set_textContent n t s = s\<lparr>textContent := (textContent s)(n \<mapsto> t)\<rparr>"

subsection \<open>Header\<close>

definition scrollThreshold :: real where
  "scrollThreshold = 50"

definition Header_onScroll :: "page \<Rightarrow> error + page" where
  "Header_onScroll s =
     with_ref (Header_header s) (\<lambda>header.
       Inr (if scrollY s > scrollThreshold then classList_add header ''header--scrolled'' s
            else classList_remove header ''header--scrolled'' s))"

definition Header_init :: "document \<Rightarrow> page \<Rightarrow> error + page" where
  "Header_init doc s =
     (let s1 = s\<lparr>Header_header := querySelector doc ''.header''\<rparr>
      in if Header_header s1 = None then Inr s1
         else Header_onScroll (addEventListener Window ''scroll'' Cb_Header_onScroll s1))"

subsection \<open>Modal\<close>

definition Modal_open :: "page \<Rightarrow> page" where
  "Modal_open s =
     (case Modal_modal s of
        None \<Rightarrow> s
      | Some modal \<Rightarrow> (classList_add modal ''active'' s)\<lparr>bodyOverflow := ''hidden''\<rparr>)"

definition Modal_close :: "page \<Rightarrow> page" where
  "Modal_close s =
     (case Modal_modal s of
        None \<Rightarrow> s
      | Some modal \<Rightarrow> (classList_remove modal ''active'' s)\<lparr>bodyOverflow := []\<rparr>)"

definition Modal_init :: "document \<Rightarrow> page \<Rightarrow> error + page" where
  "Modal_init doc s =
     (let s1 = s\<lparr>Modal_modal := getElementById doc ''modal'',
                  Modal_form := getElementById doc ''lead-form''\<rparr>
      in case Modal_modal s1 of
           None \<Rightarrow> Inr s1
         | Some modal \<Rightarrow>
             (let s2 = fold (\<lambda>trigger. addEventListener (Element trigger) ''click'' Cb_Modal_open)
                         (querySelectorAll doc ''[data-modal-open]'') s1;
                  s3 = fold (\<lambda>trigger. addEventListener (Element trigger) ''click'' Cb_Modal_close)
                         (querySelectorAll doc ''[data-modal-close]'') s2;
                  s4 = addEventListener (Element modal) ''click'' Cb_Modal_backdrop s3;
                  s5 = addEventListener Document ''keydown'' Cb_Modal_keydown s4
              in case Modal_form s5 of
                   None \<Rightarrow> Inr s5
                 | Some form \<Rightarrow>
                     Inr (addEventListener (Element form) ''submit'' Cb_Modal_handleSubmit s5)))"

text \<open>The listeners of the trigger, the backdrop and the keyboard.\<close>

definition Modal_onOpenClick :: "page \<Rightarrow> page" where
  "Modal_onOpenClick s = Modal_open (s\<lparr>defaultPrevented := True\<rparr>)"

definition Modal_onBackdropClick :: "target \<Rightarrow> page \<Rightarrow> page" where
  "Modal_onBackdropClick e_target s =
     (case Modal_modal s of
        None \<Rightarrow> s
      | Some modal \<Rightarrow> if e_target = Element modal then Modal_close s else s)"

definition Modal_onKeydown :: "string \<Rightarrow> page \<Rightarrow> error + page" where
  "Modal_onKeydown e_key s =
     (if e_key = ''Escape'' then
        with_ref (Modal_modal s) (\<lambda>modal.
          Inr (if classList_contains modal ''active'' s then Modal_close s else s))
      else Inr s)"

text \<open>
  \<^verbatim>\<open>Object.fromEntries\<close>: each entry is assigned in turn, so a later entry of the same name
  replaces the value of an earlier one. Reading a property that was never assigned gives
  \<^verbatim>\<open>undefined\<close>, here \<open>None\<close>; \<open>falsy_text\<close> is \<^verbatim>\<open>!v\<close> for such a value: undefined and the
  empty string are falsy.
\<close>

definition Object_fromEntries :: "(string \<times> 'a) list \<Rightarrow> (string \<times> 'a) list" where
  "Object_fromEntries entries = fold (\<lambda>(k, v) obj. AList.update k v obj) entries []"

definition falsy_text :: "utf16 option \<Rightarrow> bool" where
  "falsy_text v = (case v of None \<Rightarrow> True | Some t \<Rightarrow> t = [])"

definition fill_all_fields :: utf16 where
  "fill_all_fields =
     [1055, 1086, 1078, 1072, 1083, 1091, 1081, 1089, 1090, 1072, 44, 32, 1079, 1072,
      1087, 1086, 1083, 1085, 1080, 1090, 1077, 32, 1074, 1089, 1077, 32, 1087, 1086,
      1083, 1103]"

definition success_markup :: utf16 where
  "success_markup =
     [10, 32, 32, 32, 32, 32, 32, 60, 100, 105, 118, 32, 99, 108, 97, 115, 115, 61,
      34, 102, 111, 114, 109, 95, 95, 115, 117, 99, 99, 101, 115, 115, 34, 62, 10,
      32, 32, 32, 32, 32, 32, 32, 32, 60, 100, 105, 118, 32, 99, 108, 97, 115, 115,
      61, 34, 102, 111, 114, 109, 95, 95, 115, 117, 99, 99, 101, 115, 115, 45, 105,
      99, 111, 110, 34, 62, 10003, 60, 47, 100, 105, 118, 62, 10, 32, 32, 32, 32, 32,
      32, 32, 32, 60, 104, 51, 32, 99, 108, 97, 115, 115, 61, 34, 102, 111, 114, 109,
      95, 95, 115, 117, 99, 99, 101, 115, 115, 45, 116, 105, 116, 108, 101, 34, 62,
      1047, 1072, 1103, 1074, 1082, 1072, 32, 1086, 1090, 1087, 1088, 1072, 1074,
      1083, 1077, 1085, 1072, 33, 60, 47, 104, 51, 62, 10, 32, 32, 32, 32, 32, 32,
      32, 32, 60, 112, 32, 99, 108, 97, 115, 115, 61, 34, 102, 111, 114, 109, 95, 95,
      115, 117, 99, 99, 101, 115, 115, 45, 116, 101, 120, 116, 34, 62, 1052, 1099,
      32, 1089, 1074, 1103, 1078, 1077, 1084, 1089, 1103, 32, 1089, 32, 1074, 1072,
      1084, 1080, 32, 1074, 32, 1090, 1077, 1095, 1077, 1085, 1080, 1077, 32, 51, 48,
      32, 1084, 1080, 1085, 1091, 1090, 60, 47, 112, 62, 10, 32, 32, 32, 32, 32, 32,
      60, 47, 100, 105, 118, 62, 10, 32, 32, 32, 32]"

text \<open>
  \<^verbatim>\<open>showSuccess\<close> replaces the content of the form's parent and starts the timer of 2500 ms;
  when that fires, the modal is closed and the timer of 300 ms for the reload is started.
\<close>

definition Modal_showSuccess :: "document \<Rightarrow> page \<Rightarrow> error + page" where
  "Modal_showSuccess doc s =
     with_ref (Modal_form s) (\<lambda>form.
       with_ref (parentElement doc form) (\<lambda>formContent.
         Inr (s\<lparr>innerHTML := (innerHTML s)(formContent \<mapsto> success_markup),
                 timers := timers s @ [(2500, Cb_Modal_closeThenReload)]\<rparr>)))"

definition Modal_closeThenReload :: "page \<Rightarrow> page" where
  "Modal_closeThenReload s =
     (let s1 = Modal_close s in s1\<lparr>timers := timers s1 @ [(300, Cb_location_reload)]\<rparr>)"

text \<open>\<^verbatim>\<open>new FormData(this.form)\<close> throws when the form is \<^verbatim>\<open>null\<close>.\<close>

definition Modal_handleSubmit :: "document \<Rightarrow> page \<Rightarrow> error + page" where
  "Modal_handleSubmit doc s =
     (let s1 = s\<lparr>defaultPrevented := True\<rparr>
      in with_ref (Modal_form s1) (\<lambda>form.
           let formData = formEntries s1 form;
               data = Object_fromEntries formData
           in if falsy_text (map_of data ''name'') \<or> falsy_text (map_of data ''phone'')
              then Inr (s1\<lparr>alerts := alerts s1 @ [fill_all_fields]\<rparr>)
              else and_then (Modal_showSuccess doc s1) (\<lambda>s2.
                     Inr (s2\<lparr>console := console s2 @ [(''Form submitted:'', data)]\<rparr>))))"

subsection \<open>MobileMenu\<close>

text \<open>
  \<^verbatim>\<open>nav.querySelectorAll\<close> is called on the result of the query for \<^verbatim>\<open>.header__nav\<close> before
  the check \<^verbatim>\<open>if (!menuBtn || !nav) return\<close> is reached.
\<close>

definition MobileMenu_init :: "document \<Rightarrow> page \<Rightarrow> error + page" where
  "MobileMenu_init doc s =
     (let menuBtn = querySelector doc ''.header__menu-btn'';
          nav = querySelector doc ''.header__nav''
      in with_ref nav (\<lambda>nav_el.
           let links = elementQuerySelectorAll doc nav_el ''.header__nav-link''
           in if menuBtn = None \<or> nav = None then Inr s
              else with_ref menuBtn (\<lambda>btn.
                     Inr (fold (\<lambda>link. addEventListener (Element link) ''click'' Cb_MobileMenu_linkClick)
                            links
                            (addEventListener (Element btn) ''click'' Cb_MobileMenu_toggle s)))))"

definition MobileMenu_toggle :: "node \<Rightarrow> node \<Rightarrow> page \<Rightarrow> page" where
  "MobileMenu_toggle nav menuBtn s =
     (let s1 = classList_toggle menuBtn ''active'' (classList_toggle nav ''active'' s)
      in s1\<lparr>bodyOverflow := (if classList_contains nav ''active'' s1 then ''hidden'' else [])\<rparr>)"

definition MobileMenu_linkClick :: "node \<Rightarrow> node \<Rightarrow> page \<Rightarrow> page" where
  "MobileMenu_linkClick nav menuBtn s =
     (classList_remove menuBtn ''active'' (classList_remove nav ''active'' s))\<lparr>bodyOverflow := []\<rparr>"

subsection \<open>Calculator\<close>

fun to_text :: "jsval \<Rightarrow> utf16" where
  "to_text (Num n) = decimal n"
| "to_text NaN = ascii ''NaN''"
| "to_text Null = ascii ''null''"
| "to_text Undefined = ascii ''undefined''"

definition label_text :: "utf16 option \<Rightarrow> utf16" where
  "label_text v = (case v of None \<Rightarrow> ascii ''undefined'' | Some t \<Rightarrow> t)"

definition sq_m :: utf16 where
  "sq_m = [32, 1082, 1074, 46, 1084, 44, 32]"

definition per_month :: utf16 where
  "per_month = [32, 1088, 1072, 1079, 32, 1074, 32, 1084, 1077, 1089, 1103, 1094]"

definition contact_us :: utf16 where
  "contact_us =
     [1057, 1074, 1103, 1078, 1080, 1090, 1077, 1089, 1100, 32, 1089, 32, 1085, 1072,
      1084, 1080, 32, 1076, 1083, 1103, 32, 1088, 1072, 1089, 1095, 1077, 1090, 1072]"

definition saving_prefix :: utf16 where
  "saving_prefix = [55357, 56496, 32, 1069, 1082, 1086, 1085, 1086, 1084, 1080, 1103, 32]"

definition saving_suffix :: utf16 where
  "saving_suffix = [32, 1085, 1072, 32, 1082, 1072, 1078, 1076, 1086, 1081]"

text \<open>The selectors with a quoted attribute value.\<close>

definition sel_frequency :: string where
  "sel_frequency = ''input[name='' @ [CHR 0x22] @ ''frequency'' @ [CHR 0x22] @ '']''"

definition sel_frequency_checked :: string where
  "sel_frequency_checked = sel_frequency @ '':checked''"

text \<open>
  The slider's background. \<open>percent\<close> is the text of \<^verbatim>\<open>((area - 50) / (250 - 50)) * 100\<close>,
  a floating-point number that the platform renders; it is a parameter, as the number
  formatter \<open>nf\<close> is.
\<close>

definition gradient :: "utf16 \<Rightarrow> utf16" where
  "gradient percent =
     ascii ''linear-gradient(to right, #3498DB 0%, #2C3E50 '' @ percent
     @ ascii ''%, #E0E7EF '' @ percent @ ascii ''%, #E0E7EF 100%)''"

definition Calculator_update ::
  "(jsval \<Rightarrow> utf16) \<Rightarrow> (jsval \<Rightarrow> utf16) \<Rightarrow> document \<Rightarrow> page \<Rightarrow> error + page" where
  "Calculator_update nf pct doc s =
     with_ref (slider (calc s)) (\<lambda>sl.
       let area = parseInt (inputValue s sl)
       in with_ref (querySelector doc sel_frequency_checked) (\<lambda>checked.
       let frequency = inputValue s checked
       in with_ref (areaValue (calc s)) (\<lambda>av.
       let s1 = set_textContent av (to_text area) s
       in with_ref (areaHint (calc s)) (\<lambda>ah.
          and_then (getAreaHint area) (\<lambda>hint.
       let s2 = set_textContent ah hint s1;
           s3 = s2\<lparr>styleBackground := (styleBackground s2)(sl \<mapsto> gradient (pct area))\<rparr>
       in and_then (getPrice area frequency) (\<lambda>price.
       let monthlyPrice = getMonthlyPrice price frequency
       in with_ref (resultSummary (calc s)) (\<lambda>rs.
       let s4 = set_textContent rs
                  (to_text area @ sq_m @ label_text (map_of frequencyLabels frequency)) s3
       in with_ref (resultPrice (calc s)) (\<lambda>rp.
       let s5 = set_textContent rp (formatPrice nf price) s4
       in with_ref (resultMonthly (calc s)) (\<lambda>rm.
            Inr (set_textContent rm
                   (if frequency = ''single'' then []
                    else if \<not> falsy price then formatPrice nf monthlyPrice @ per_month
                    else contact_us) s5))))))))))"

definition Calculator_updateOptionPrices ::
  "(jsval \<Rightarrow> utf16) \<Rightarrow> document \<Rightarrow> page \<Rightarrow> error + page" where
  "Calculator_updateOptionPrices nf doc s =
     with_ref (slider (calc s)) (\<lambda>sl.
       let area = parseInt (inputValue s sl);
           singlePriceEl = getElementById doc ''price-single''
       in and_then (getPrice area ''single'') (\<lambda>singlePrice.
       let s1 = (case singlePriceEl of
                   None \<Rightarrow> s
                 | Some el \<Rightarrow> set_textContent el (formatPrice nf singlePrice) s);
           weeklyPriceEl = getElementById doc ''price-weekly'';
           weeklyMonthlyEl = getElementById doc ''monthly-weekly'';
           weeklySavingEl = getElementById doc ''saving-weekly''
       in and_then (getPrice area ''weekly'') (\<lambda>weeklyPrice.
       let s2 = (case weeklyPriceEl of
                   None \<Rightarrow> s1
                 | Some el \<Rightarrow> set_textContent el (formatPrice nf weeklyPrice) s1);
           s3 = (case weeklyMonthlyEl of
                   None \<Rightarrow> s2
                 | Some el \<Rightarrow>
                     if falsy weeklyPrice then s2
                     else set_textContent el
                            (ascii ''('' @ formatPrice nf (js_times weeklyPrice (Num 4))
                             @ per_month @ ascii '')'') s2)
       in case weeklySavingEl of
            None \<Rightarrow> Inr s3
          | Some el \<Rightarrow>
              and_then (getSavings area ''weekly'') (\<lambda>saving.
                Inr (set_textContent el
                       (if js_gt saving (Num 0)
                        then saving_prefix @ formatPrice nf saving @ saving_suffix
                        else []) s3)))))"

definition Calculator_init ::
  "(jsval \<Rightarrow> utf16) \<Rightarrow> (jsval \<Rightarrow> utf16) \<Rightarrow> document \<Rightarrow> page \<Rightarrow> error + page" where
  "Calculator_init nf pct doc s =
     (let s1 = s\<lparr>calc :=
                   \<lparr>slider = getElementById doc ''area-slider'',
                    areaValue = getElementById doc ''area-value'',
                    areaHint = getElementById doc ''area-hint'',
                    options = querySelectorAll doc sel_frequency,
                    resultSummary = getElementById doc ''result-summary'',
                    resultPrice = getElementById doc ''result-price'',
                    resultMonthly = getElementById doc ''result-monthly'',
                    savingElements = querySelectorAll doc ''.calculator__option-saving''\<rparr>\<rparr>
      in case slider (calc s1) of
           None \<Rightarrow> Inr s1
         | Some sl \<Rightarrow>
             (let s2 = addEventListener (Element sl) ''input'' Cb_Calculator_update s1;
                  s3 = fold (\<lambda>option. addEventListener (Element option) ''change''
                                        Cb_Calculator_update)
                         (options (calc s2)) s2;
                  s4 = addEventListener (Element sl) ''input'' Cb_Calculator_updateOptionPrices s3
              in and_then (Calculator_update nf pct doc s4)
                   (Calculator_updateOptionPrices nf doc)))"

section \<open>Sample pages\<close>

text \<open>
  Concrete documents and pages on which the functions are evaluated: a document with no
  element at all, one with the menu button but no navigation panel, a page before any
  script has run, the open modal with a form whose phone field is empty, and a page with
  the calculator's markup, the slider at 100 and the weekly option checked.
\<close>

definition no_element_document :: document where
  "no_element_document =
     \<lparr>getElementById = (\<lambda>ident. None), querySelector = (\<lambda>sel. None),
      querySelectorAll = (\<lambda>sel. []), elementQuerySelectorAll = (\<lambda>n sel. []),
      parentElement = (\<lambda>n. None)\<rparr>"

definition document_without_nav :: document where
  "document_without_nav =
     no_element_document
       \<lparr>querySelector := (\<lambda>sel. if sel = ''.header__menu-btn'' then Some 1 else None)\<rparr>"

definition fresh_page :: page where
  "fresh_page =
     \<lparr>scrollY = 0, inputValue = (\<lambda>n. []), formEntries = (\<lambda>n. []), listeners = [],
      classList = (\<lambda>n. []), textContent = (\<lambda>n. None), innerHTML = (\<lambda>n. None),
      styleBackground = (\<lambda>n. None), bodyOverflow = [], alerts = [], console = [], timers = [],
      defaultPrevented = False, Header_header = None, Modal_modal = None, Modal_form = None,
      calc = \<lparr>slider = None, areaValue = None, areaHint = None, options = [],
              resultSummary = None, resultPrice = None, resultMonthly = None,
              savingElements = []\<rparr>\<rparr>"

definition lead_document :: document where
  "lead_document = no_element_document\<lparr>parentElement := (\<lambda>n. if n = 2 then Some 3 else None)\<rparr>"

definition lead_page :: page where
  "lead_page =
     fresh_page
       \<lparr>Modal_modal := Some 1, Modal_form := Some 2,
        classList := (\<lambda>n. if n = 1 then [''modal'', ''active''] else []),
        bodyOverflow := ''hidden'',
        formEntries := (\<lambda>n. if n = 2 then [(''name'', [1040, 1085, 1085, 1072]), (''phone'', [])]
                             else [])\<rparr>"

definition calculator_document :: document where
  "calculator_document =
     no_element_document
       \<lparr>getElementById := map_of
          [(''area-slider'', 10), (''area-value'', 11), (''area-hint'', 12),
           (''result-summary'', 13), (''result-price'', 14), (''result-monthly'', 15),
           (''price-single'', 16), (''price-weekly'', 17), (''monthly-weekly'', 18),
           (''saving-weekly'', 19)],
        querySelector := (\<lambda>sel. if sel = sel_frequency_checked then Some 21 else None),
        querySelectorAll := (\<lambda>sel. if sel = sel_frequency then [20, 21] else [])\<rparr>"

definition calculator_page :: page where
  "calculator_page =
     fresh_page\<lparr>inputValue := (\<lambda>n. if n = 10 then ''100'' else if n = 20 then ''single''
                                     else if n = 21 then ''weekly'' else [])\<rparr>"

section \<open>Evaluating the tables\<close>

lemma parseInt_keys:
  "parseInt ''50'' = Num 50" "parseInt ''75'' = Num 75" "parseInt ''90'' = Num 90"
  "parseInt ''100'' = Num 100" "parseInt ''130'' = Num 130" "parseInt ''150'' = Num 150"
  "parseInt ''170'' = Num 170" "parseInt ''200'' = Num 200"
  by (simp_all add: parseInt_def strip_sign_def strip_radix_def is_space_def digit_of_def)

lemma array_index_keys:
  "array_index ''50'' = Some 50" "array_index ''75'' = Some 75" "array_index ''90'' = Some 90"
  "array_index ''100'' = Some 100" "array_index ''130'' = Some 130"
  "array_index ''150'' = Some 150" "array_index ''170'' = Some 170"
  "array_index ''200'' = Some 200"
  by (simp_all add: array_index_def digit_of_def)

text \<open>The keys of the literal are already in ascending order.\<close>

lemma entries_areaHints: "Object_entries areaHints = areaHints"
  by (simp add: Object_entries_def areaHints_def array_index_keys)

lemma hint_scan_numeral:
  "hint_scan hints (numeral n) area =
     (if js_ge area (parseInt (fst (hints ! pred_numeral n)))
      then Some (snd (hints ! pred_numeral n))
      else hint_scan hints (pred_numeral n) area)"
  by (simp add: numeral_eq_Suc)

lemma hint_scan_1:
  "hint_scan hints 1 area =
     (if js_ge area (parseInt (fst (hints ! 0))) then Some (snd (hints ! 0)) else None)"
  by simp

lemma getAreaHint_cases:
  "getAreaHint (Num area) = Inr
     (if 200 \<le> area then hint_200 else if 170 \<le> area then hint_170
      else if 150 \<le> area then hint_150 else if 130 \<le> area then hint_130
      else if 100 \<le> area then hint_100 else if 90 \<le> area then hint_90
      else if 75 \<le> area then hint_75 else hint_50)"
  unfolding getAreaHint_def entries_areaHints
  by (simp add: Let_def areaHints_def parseInt_keys js_ge_def hint_scan_numeral hint_scan_1)

text \<open>No comparison with \<^verbatim>\<open>NaN\<close> holds, so the loop runs out and the first label is returned.\<close>

lemma getAreaHint_NaN: "getAreaHint NaN = Inr hint_50"
  unfolding getAreaHint_def entries_areaHints
  by (simp add: Let_def areaHints_def parseInt_keys js_ge_def hint_scan_numeral hint_scan_1)

lemma getZone_cases:
  "getZone (Num area) =
     (if area \<le> 90 then ''zone1'' else if area \<le> 150 then ''zone2'' else ''zone3'')"
  by (simp add: getZone_def js_le_def)

lemma getPrice_cases:
  "getPrice (Num area) ''single'' =
     Inr (Num (if area \<le> 90 then 9900 else if area \<le> 150 then 14900 else 21900))"
  "getPrice (Num area) ''weekly'' =
     Inr (Num (if area \<le> 90 then 8400 else if area \<le> 150 then 12700 else 18600))"
  by (simp_all add: getPrice_def getZone_cases prices_def)

lemma hint_table_eq:
  "hint_table = [(50, hint_50), (75, hint_75), (90, hint_90), (100, hint_100),
                 (130, hint_130), (150, hint_150), (170, hint_170), (200, hint_200)]"
  by (simp add: hint_table_def areaHints_def parseInt_keys)

lemma table_prices_eq: "table_prices = [9900, 8400, 14900, 12700, 21900, 18600]"
  by (simp add: table_prices_def prices_def)

lemma dec_digits_below_58: "c \<in> set (dec_digits n) \<Longrightarrow> 48 \<le> c \<and> c < 58"
proof (induction n arbitrary: c rule: dec_digits.induct)
  case (1 n)
  show ?case
  proof (cases "n < 10")
    case True
    with "1.prems" show ?thesis by (simp add: dec_digits.simps [of n])
  next
    case False
    with "1.prems" have "c \<in> set (dec_digits (n div 10)) \<or> c = 48 + n mod 10"
      by (simp add: dec_digits.simps [of n] disj_commute)
    then show ?thesis
    proof
      assume "c \<in> set (dec_digits (n div 10))"
      with False "1.IH" show ?thesis by blast
    next
      assume "c = 48 + n mod 10"
      then show ?thesis by simp
    qed
  qed
qed

text \<open>Grouping only inserts separators: without them the digits are as before.\<close>

lemma group3_digits: "160 \<notin> set ds \<Longrightarrow> filter (\<lambda>c. c \<noteq> 160) (group3 ds) = ds"
  by (induction ds rule: group3.induct) auto

lemma grouped_digits: "filter (\<lambda>c. c \<noteq> 160) (grouped n) = dec_digits n"
proof -
  have "160 \<notin> set (rev (dec_digits n))"
    using dec_digits_below_58 [of 160 n] by auto
  then have "filter (\<lambda>c. c \<noteq> 160) (group3 (rev (dec_digits n))) = rev (dec_digits n)"
    by (rule group3_digits)
  then show ?thesis by (simp add: grouped_def rev_filter [symmetric])
qed

lemma grouped_samples:
  "grouped 999 = [57, 57, 57]"
  "grouped 9900 = [57, 160, 57, 48, 48]"
  "grouped 1234567 = [49, 160, 50, 51, 52, 160, 53, 54, 55]"
  by (simp_all add: grouped_def dec_digits.simps)

section \<open>Zones, prices and savings\<close>

text \<open>
  C1. For every integer area from 50 to 90 \<^verbatim>\<open>getZone\<close> returns \<^verbatim>\<open>zone1\<close>, from 91 to 150
  \<^verbatim>\<open>zone2\<close>, and from 151 to 250 \<^verbatim>\<open>zone3\<close>.
\<close>

theorem getZone_ranges:
  "(50 \<le> area \<and> area \<le> 90 \<longrightarrow> getZone (Num area) = ''zone1'') \<and>
   (91 \<le> area \<and> area \<le> 150 \<longrightarrow> getZone (Num area) = ''zone2'') \<and>
   (151 \<le> area \<and> area \<le> 250 \<longrightarrow> getZone (Num area) = ''zone3'')"
  by (simp add: getZone_cases)

theorem getZone_ranges_witness:
  "((50::int) \<le> 70 \<and> (70::int) \<le> 90 \<and> getZone (Num 70) = ''zone1'') \<and>
   ((91::int) \<le> 150 \<and> (150::int) \<le> 150 \<and> getZone (Num 150) = ''zone2'') \<and>
   ((151::int) \<le> 151 \<and> (151::int) \<le> 250 \<and> getZone (Num 151) = ''zone3'')"
  using getZone_ranges [of 70] getZone_ranges [of 150] getZone_ranges [of 151] by simp

text \<open>
  C2. For every integer area from 50 to 250 \<^verbatim>\<open>getPrice\<close> returns a number for either
  frequency, and the weekly price is at most the single price; every entry of the price
  table has both prices, the weekly one at most the single one.
\<close>

theorem weekly_le_single:
  "50 \<le> area \<Longrightarrow> area \<le> 250 \<Longrightarrow>
   (\<exists>w s. getPrice (Num area) ''weekly'' = Inr (Num w) \<and>
          getPrice (Num area) ''single'' = Inr (Num s) \<and> w \<le> s) \<and>
   list_all (\<lambda>(zone, entry). \<exists>w s. map_of entry ''weekly'' = Some w \<and>
                                     map_of entry ''single'' = Some s \<and> w \<le> s) prices"
  by (simp add: getPrice_cases prices_def)

theorem weekly_le_single_witness:
  "(50::int) \<le> 100 \<and> (100::int) \<le> 250 \<and>
   (\<exists>w s. getPrice (Num 100) ''weekly'' = Inr (Num w) \<and>
          getPrice (Num 100) ''single'' = Inr (Num s) \<and> w \<le> s)"
  using weekly_le_single [of 100] by simp

text \<open>
  C3. For every integer area from 50 to 250 \<^verbatim>\<open>getSavings\<close> returns 0 for the single
  frequency, and for the weekly frequency the single price less the weekly price.
\<close>

theorem getSavings_value:
  "50 \<le> area \<Longrightarrow> area \<le> 250 \<Longrightarrow>
   getSavings (Num area) ''single'' = Inr (Num 0) \<and>
   (\<exists>s w. getPrice (Num area) ''single'' = Inr (Num s) \<and>
          getPrice (Num area) ''weekly'' = Inr (Num w) \<and>
          getSavings (Num area) ''weekly'' = Inr (Num (s - w)))"
  by (simp add: getSavings_def getPrice_cases js_minus_def)

theorem getSavings_value_witness:
  "(50::int) \<le> 100 \<and> (100::int) \<le> 250 \<and>
   getSavings (Num 100) ''single'' = Inr (Num 0) \<and>
   getSavings (Num 100) ''weekly'' = Inr (Num 2200)"
  using getSavings_value [of 100] by (simp add: getPrice_cases)

section \<open>The monthly price\<close>

text \<open>
  C4, as stated, fails at the price 0: \<^verbatim>\<open>getMonthlyPrice\<close> returns \<^verbatim>\<open>null\<close> there, neither
  \<open>0 * 4\<close> for the weekly frequency nor the price itself for the single one.
\<close>

theorem getMonthlyPrice_zero_counterexample:
  "getMonthlyPrice (Num 0) ''weekly'' \<noteq> Num (0 * 4) \<and>
   getMonthlyPrice (Num 0) ''single'' \<noteq> Num 0"
  by (simp add: getMonthlyPrice_def)

text \<open>
  C4, amended. For every integer price other than 0 \<^verbatim>\<open>getMonthlyPrice\<close> returns four times
  the price for the weekly frequency and the price itself for the single one; for a falsy
  price (0, \<^verbatim>\<open>NaN\<close>, null, undefined) it returns \<^verbatim>\<open>null\<close> whatever the frequency.
\<close>

theorem getMonthlyPrice_nonzero:
  "(price \<noteq> 0 \<longrightarrow> getMonthlyPrice (Num price) ''weekly'' = Num (price * 4) \<and>
                   getMonthlyPrice (Num price) ''single'' = Num price) \<and>
   getMonthlyPrice (Num 0) frequency = Null \<and>
   getMonthlyPrice NaN frequency = Null \<and>
   getMonthlyPrice Null frequency = Null \<and>
   getMonthlyPrice Undefined frequency = Null"
  by (simp add: getMonthlyPrice_def js_times_def)

theorem getMonthlyPrice_nonzero_witness:
  "(8400::int) \<noteq> 0 \<and> getMonthlyPrice (Num 8400) ''weekly'' = Num 33600 \<and>
   getMonthlyPrice (Num 8400) ''single'' = Num 8400"
  using getMonthlyPrice_nonzero [of 8400] by simp

section \<open>The area hint\<close>

text \<open>
  C5. For every integer area \<^verbatim>\<open>getAreaHint\<close> returns the label of the greatest key of the
  table that is at most the area, and the label of the smallest key when the area is below
  every key. The areas 49 and 50 give the label of the key 50, the areas 200 and 201 the
  label of the key 200.
\<close>

theorem getAreaHint_greatest_key:
  "((k, label) \<in> set hint_table \<and> k \<le> area \<and>
      (\<forall>k' \<in> fst ` set hint_table. k' \<le> area \<longrightarrow> k' \<le> k)
      \<longrightarrow> getAreaHint (Num area) = Inr label) \<and>
   ((k, label) \<in> set hint_table \<and> (\<forall>k' \<in> fst ` set hint_table. area < k' \<and> k \<le> k')
      \<longrightarrow> getAreaHint (Num area) = Inr label) \<and>
   map_of hint_table 50 = Some hint_50 \<and> map_of hint_table 200 = Some hint_200 \<and>
   getAreaHint (Num 49) = Inr hint_50 \<and> getAreaHint (Num 50) = Inr hint_50 \<and>
   getAreaHint (Num 200) = Inr hint_200 \<and> getAreaHint (Num 201) = Inr hint_200"
  unfolding hint_table_eq getAreaHint_cases by auto

theorem getAreaHint_greatest_key_witness:
  "((100, hint_100) \<in> set hint_table \<and> (100::int) \<le> 120 \<and>
      map fst hint_table = [50, 75, 90, 100, 130, 150, 170, 200] \<and>
      getAreaHint (Num 120) = Inr hint_100) \<and>
   ((50, hint_50) \<in> set hint_table \<and> getAreaHint (Num 10) = Inr hint_50)"
  using getAreaHint_greatest_key [of 100 hint_100 120] getAreaHint_greatest_key [of 50 hint_50 10]
  by (simp add: hint_table_eq)

section \<open>Formatting a price\<close>

text \<open>
  C6. \<^verbatim>\<open>formatPrice\<close> returns the "on request" text for 0 and for null. For every positive
  integer price it returns the decimal digits of the price in groups of three from the
  right, separated by U+00A0 as the ru-RU locale has them, followed by the rouble sign; for
  9900 that is 9, U+00A0, 900 and the sign.
\<close>

theorem formatPrice_cases:
  "formatPrice ru_RU_format (Num 0) = on_request \<and>
   formatPrice ru_RU_format Null = on_request \<and>
   (0 < price \<longrightarrow>
      formatPrice ru_RU_format (Num price) = grouped (nat price) @ rouble \<and>
      filter (\<lambda>c. c \<noteq> 160) (grouped (nat price)) = decimal price) \<and>
   formatPrice ru_RU_format (Num 9900) = [57, 160, 57, 48, 48, 8381]"
  by (simp add: formatPrice_def ru_RU_format_def ru_RU_integer_def grouped_digits decimal_def
        grouped_samples rouble_def)

theorem formatPrice_cases_witness:
  "(0::int) < 21900 \<and> formatPrice ru_RU_format (Num 21900) = [50, 49, 160, 57, 48, 48, 8381]"
  using formatPrice_cases [of 21900]
  by (simp add: grouped_def dec_digits.simps rouble_def)

section \<open>Submitting the lead form\<close>

lemma map_of_fold_update:
  "map_of (fold (\<lambda>(k, v) obj. AList.update k v obj) es acc) = map_of acc ++ map_of (rev es)"
proof (induction es arbitrary: acc)
  case Nil
  then show ?case by simp
next
  case (Cons e es)
  obtain k v where e: "e = (k, v)" by (cases e)
  have "map_of (fold (\<lambda>(k, v) obj. AList.update k v obj) (e # es) acc)
          = map_of (AList.update k v acc) ++ map_of (rev es)"
    using Cons.IH [of "AList.update k v acc"] by (simp add: e)
  also have "\<dots> = map_of acc ++ map_of (rev (e # es))"
    by (simp add: e update_conv' map_add_def fun_eq_iff split: option.split)
  finally show ?case .
qed

text \<open>A property of the object is the value of the last entry of that name.\<close>

lemma map_of_fromEntries: "map_of (Object_fromEntries es) = map_of (rev es)"
  by (simp add: Object_fromEntries_def map_of_fold_update)

lemma blank_field_falsy:
  assumes "\<forall>v. (k, v) \<in> set es \<longrightarrow> v = []"
  shows "falsy_text (map_of (Object_fromEntries es) k)"
proof (cases "map_of (rev es) k")
  case None
  then show ?thesis by (simp add: map_of_fromEntries falsy_text_def)
next
  case (Some t)
  then have "(k, t) \<in> set es" using map_of_SomeD by fastforce
  with assms have "t = []" by blast
  with Some show ?thesis by (simp add: map_of_fromEntries falsy_text_def)
qed

text \<open>
  C7. When the form is submitted and the name field or the phone field is blank (every
  entry of that name is the empty string, or there is none), \<^verbatim>\<open>handleSubmit\<close> returns
  after the alert: the page is as before but for the alert shown and the default action
  of the event prevented. So the form's parent keeps its content, no timer is started, and
  the modal's class list and the scroll lock of the body are unchanged.
\<close>

theorem handleSubmit_blank_field:
  assumes "Modal_form s = Some form"
      and "k = ''name'' \<or> k = ''phone''"
      and "\<forall>v. (k, v) \<in> set (formEntries s form) \<longrightarrow> v = []"
  shows "Modal_handleSubmit doc s =
           Inr (s\<lparr>defaultPrevented := True, alerts := alerts s @ [fill_all_fields]\<rparr>)"
proof -
  have "falsy_text (map_of (Object_fromEntries (formEntries s form)) k)"
    using assms(3) by (rule blank_field_falsy)
  with assms(1,2) show ?thesis
    by (auto simp add: Modal_handleSubmit_def with_ref_def Let_def)
qed

theorem handleSubmit_blank_field_witness:
  "Modal_form lead_page = Some 2 \<and>
   formEntries lead_page 2 = [(''name'', [1040, 1085, 1085, 1072]), (''phone'', [])] \<and>
   Modal_handleSubmit lead_document lead_page =
     Inr (lead_page\<lparr>defaultPrevented := True, alerts := [fill_all_fields]\<rparr>)"
  using handleSubmit_blank_field [of lead_page 2 "''phone''" lead_document]
  by (simp add: lead_page_def fresh_page_def)

text \<open>
  With both fields filled the success markup replaces the content of the form's parent and
  the timer is started: the two outcomes differ.
\<close>

lemma handleSubmit_filled:
  assumes "Modal_form s = Some form" and "parentElement doc form = Some formContent"
      and "map_of (rev (formEntries s form)) ''name'' = Some name" and "name \<noteq> []"
      and "map_of (rev (formEntries s form)) ''phone'' = Some phone" and "phone \<noteq> []"
  shows "\<exists>s'. Modal_handleSubmit doc s = Inr s' \<and> alerts s' = alerts s \<and>
              innerHTML s' formContent = Some success_markup \<and>
              timers s' = timers s @ [(2500, Cb_Modal_closeThenReload)]"
  using assms
  by (simp add: Modal_handleSubmit_def Modal_showSuccess_def with_ref_def and_then_def Let_def
        map_of_fromEntries falsy_text_def)

section \<open>Initialisation on a page without the expected markup\<close>

text \<open>\<^verbatim>\<open>Header.init\<close> and \<^verbatim>\<open>Modal.init\<close> return at their check, with no listener added.\<close>

lemma Header_init_absent:
  "querySelector doc ''.header'' = None \<Longrightarrow>
   Header_init doc s = Inr (s\<lparr>Header_header := None\<rparr>)"
  by (simp add: Header_init_def)

lemma Modal_init_absent:
  "getElementById doc ''modal'' = None \<Longrightarrow>
   Modal_init doc s =
     Inr (s\<lparr>Modal_modal := None, Modal_form := getElementById doc ''lead-form''\<rparr>)"
  by (simp add: Modal_init_def)

text \<open>
  \<^verbatim>\<open>MobileMenu.init\<close> does not reach its check when the navigation panel is missing: the
  call \<^verbatim>\<open>nav.querySelectorAll\<close> on \<^verbatim>\<open>null\<close> throws first. With the panel present and the
  button missing the check is reached and nothing is registered.
\<close>

lemma MobileMenu_init_nav_absent:
  "querySelector doc ''.header__nav'' = None \<Longrightarrow> MobileMenu_init doc s = Inl TypeError"
  by (simp add: MobileMenu_init_def with_ref_def)

lemma MobileMenu_init_button_absent:
  "querySelector doc ''.header__nav'' = Some nav \<Longrightarrow>
   querySelector doc ''.header__menu-btn'' = None \<Longrightarrow> MobileMenu_init doc s = Inr s"
  by (simp add: MobileMenu_init_def with_ref_def)

text \<open>
  C8. The claim is that every module's \<^verbatim>\<open>init\<close> is a silent no-op when its markup is
  absent, \<^verbatim>\<open>MobileMenu.init\<close> without the element \<^verbatim>\<open>.header__nav\<close> in particular. On a
  document that has the menu button and no navigation panel \<^verbatim>\<open>MobileMenu.init\<close> throws a
  \<^verbatim>\<open>TypeError\<close>.
\<close>

theorem MobileMenu_init_throws_without_nav:
  "querySelector document_without_nav ''.header__nav'' = None \<and>
   MobileMenu_init document_without_nav fresh_page = Inl TypeError"
  by (simp add: MobileMenu_init_def with_ref_def document_without_nav_def no_element_document_def)

text \<open>
  C9. When the document has no element \<^verbatim>\<open>area-slider\<close>, \<^verbatim>\<open>Calculator.init\<close> returns without
  an error, and the page has the listeners, the texts, the styles and the class lists it
  had: no listener is attached and no display element is written.
\<close>

theorem Calculator_init_without_slider:
  "getElementById doc ''area-slider'' = None \<Longrightarrow>
   \<exists>s'. Calculator_init nf pct doc s = Inr s' \<and>
        listeners s' = listeners s \<and> textContent s' = textContent s \<and>
        styleBackground s' = styleBackground s \<and> innerHTML s' = innerHTML s \<and>
        classList s' = classList s \<and> bodyOverflow s' = bodyOverflow s"
  by (simp add: Calculator_init_def)

theorem Calculator_init_without_slider_witness:
  "getElementById no_element_document ''area-slider'' = None \<and>
   Calculator_init to_text to_text no_element_document fresh_page = Inr fresh_page"
  using Calculator_init_without_slider [of no_element_document to_text to_text fresh_page]
  by (auto simp add: no_element_document_def fresh_page_def Calculator_init_def sel_frequency_def)

text \<open>
  With the calculator's markup present, the slider at 100 and the weekly option checked,
  \<^verbatim>\<open>Calculator.init\<close> registers its four listeners and writes every display element.
\<close>

lemma Calculator_init_sample:
  "\<exists>s'. Calculator_init nf pct calculator_document calculator_page = Inr s' \<and>
         listeners s' =
           [(Element 10, ''input'', Cb_Calculator_update),
            (Element 20, ''change'', Cb_Calculator_update),
            (Element 21, ''change'', Cb_Calculator_update),
            (Element 10, ''input'', Cb_Calculator_updateOptionPrices)] \<and>
         textContent s' 11 = Some (decimal 100) \<and>
         textContent s' 12 = Some hint_100 \<and>
         textContent s' 13 =
           Some (decimal 100 @ sq_m @ label_text (map_of frequencyLabels ''weekly'')) \<and>
         textContent s' 14 = Some (nf (Num 12700) @ rouble) \<and>
         textContent s' 15 = Some (nf (Num 50800) @ rouble @ per_month) \<and>
         textContent s' 16 = Some (nf (Num 14900) @ rouble) \<and>
         textContent s' 17 = Some (nf (Num 12700) @ rouble) \<and>
         textContent s' 18 =
           Some (ascii ''('' @ nf (Num 50800) @ rouble @ per_month @ ascii '')'') \<and>
         textContent s' 19 = Some (saving_prefix @ nf (Num 2200) @ rouble @ saving_suffix)"
  by (simp add: Calculator_init_def Calculator_update_def Calculator_updateOptionPrices_def
        calculator_document_def calculator_page_def no_element_document_def fresh_page_def
        with_ref_def and_then_def addEventListener_def set_textContent_def Let_def
        sel_frequency_checked_def sel_frequency_def parseInt_keys getAreaHint_cases
        getPrice_cases getMonthlyPrice_def getSavings_def formatPrice_def js_times_def
        js_minus_def js_gt_def)

section \<open>Totality of the zone and the price\<close>

text \<open>
  C10. For every integer area, inside the slider's range or not, and for the single and
  the weekly frequency, \<^verbatim>\<open>getZone\<close> returns one of the three zones (\<^verbatim>\<open>zone1\<close> up to 90,
  \<^verbatim>\<open>zone3\<close> above 150) and \<^verbatim>\<open>getPrice\<close> returns, without an error, a positive price of the
  table.
\<close>

theorem getZone_getPrice_total:
  "frequency = ''single'' \<or> frequency = ''weekly'' \<Longrightarrow>
   getZone (Num area) \<in> {''zone1'', ''zone2'', ''zone3''} \<and>
   (area \<le> 90 \<longrightarrow> getZone (Num area) = ''zone1'') \<and>
   (150 < area \<longrightarrow> getZone (Num area) = ''zone3'') \<and>
   (\<exists>p. getPrice (Num area) frequency = Inr (Num p) \<and> 0 < p \<and> p \<in> set table_prices)"
  by (auto simp add: getZone_cases getPrice_cases table_prices_eq)

theorem getZone_getPrice_total_witness:
  "(- 7 :: int) \<le> 90 \<and>
   getZone (Num (- 7)) = ''zone1'' \<and> getPrice (Num (- 7)) ''weekly'' = Inr (Num 8400) \<and>
   (150 :: int) < 1000 \<and> getZone (Num 1000) = ''zone3'' \<and>
   getPrice (Num 1000) ''single'' = Inr (Num 21900)"
  using getZone_getPrice_total [of "''weekly''" "- 7"]
    getZone_getPrice_total [of "''single''" 1000]
  by (simp add: getPrice_cases)

end
